theory Spec2Isabelle
  imports Complex_Main "HOL-Library.Word"
begin

unbundle bit_operations_syntax

section \<open>The TTS server of \<^verbatim>\<open>src/tts-server/server.py\<close>\<close>

text \<open>
  The server keeps one \<^verbatim>\<open>TTSEngine\<close> (model handle, voice prompt, in-memory audio
  cache, initialized flag), a mutable \<^verbatim>\<open>ServerConfig\<close>, and files on disk (the cache
  directory and the reference clip). Everything outside the repository (the Qwen model,
  the file system's failures, Flask's request parsing) is an input of the model: a
  record \<open>env\<close> says, for one request, what each external call answers.
  Exceptions are values: a function that can raise returns \<open>py_exception + 'a\<close>
  together with the state it leaves behind.
\<close>

subsection \<open>Bytes, exceptions, Python numbers\<close>

type_synonym bytes = "8 word list"

datatype py_exception =
    ImportError string
  | AttributeError string
  | TypeError string
  | OSError string
  | BadRequest string
  | CapabilityError string

text \<open>\<^verbatim>\<open>str(e)\<close>: the message of the exception.\<close>

fun str_exc :: "py_exception \<Rightarrow> string" where
  "str_exc (ImportError m) = m"
| "str_exc (AttributeError m) = m"
| "str_exc (TypeError m) = m"
| "str_exc (OSError m) = m"
| "str_exc (BadRequest m) = m"
| "str_exc (CapabilityError m) = m"

text \<open>
  A Python float is a finite rational (every finite double is one, and comparing doubles
  is comparing these rationals), an infinity or NaN. The numbers a JSON body can carry
  are floats, unbounded ints and, since \<^verbatim>\<open>bool\<close> is a subclass of \<^verbatim>\<open>int\<close>, booleans.
\<close>

datatype pyfloat = Finite rat | PosInf | NegInf | NaN

datatype pynum = PBool bool | PInt int | PFloat pyfloat

fun to_float :: "pynum \<Rightarrow> pyfloat" where
  "to_float (PBool b) = Finite (if b then 1 else 0)"
| "to_float (PInt i) = Finite (of_int i)"
| "to_float (PFloat f) = f"

text \<open>\<^verbatim>\<open>a < b\<close> on floats: false as soon as one side is NaN.\<close>

fun float_lt :: "pyfloat \<Rightarrow> pyfloat \<Rightarrow> bool" where
  "float_lt NaN _ = False"
| "float_lt _ NaN = False"
| "float_lt (Finite a) (Finite b) = (a < b)"
| "float_lt NegInf NegInf = False"
| "float_lt NegInf _ = True"
| "float_lt _ NegInf = False"
| "float_lt PosInf _ = False"
| "float_lt _ PosInf = True"

definition py_lt :: "pynum \<Rightarrow> pynum \<Rightarrow> bool" where
  "py_lt a b = float_lt (to_float a) (to_float b)"

text \<open>
  \<^verbatim>\<open>min(a, b)\<close> keeps \<open>a\<close> unless \<open>b < a\<close>; \<^verbatim>\<open>max(a, b)\<close> keeps \<open>a\<close> unless
  \<open>b > a\<close>. The object returned is one of the two arguments, with its own type.
\<close>

definition py_min :: "pynum \<Rightarrow> pynum \<Rightarrow> pynum" where
  "py_min a b = (if py_lt b a then b else a)"

definition py_max :: "pynum \<Rightarrow> pynum \<Rightarrow> pynum" where
  "py_max a b = (if py_lt a b then b else a)"

text \<open>The rational value of a number that has one.\<close>

fun finite_value :: "pynum \<Rightarrow> rat option" where
  "finite_value n = (case to_float n of Finite q \<Rightarrow> Some q | _ \<Rightarrow> None)"

subsection \<open>JSON values\<close>

datatype json =
    JNull
  | JBool bool
  | JInt int
  | JFloat pyfloat
  | JStr string
  | JArr "json list"
  | JObj "(string \<times> json) list"

text \<open>The number a JSON value is in Python, if it is one.\<close>

fun json_num :: "json \<Rightarrow> pynum option" where
  "json_num (JBool b) = Some (PBool b)"
| "json_num (JInt i) = Some (PInt i)"
| "json_num (JFloat f) = Some (PFloat f)"
| "json_num _ = None"

subsection \<open>MD5 (\<^verbatim>\<open>hashlib.md5\<close>) and its hex digest\<close>

definition md5_K :: "32 word list" where
  "md5_K = [
    0xd76aa478, 0xe8c7b756, 0x242070db, 0xc1bdceee,
    0xf57c0faf, 0x4787c62a, 0xa8304613, 0xfd469501,
    0x698098d8, 0x8b44f7af, 0xffff5bb1, 0x895cd7be,
    0x6b901122, 0xfd987193, 0xa679438e, 0x49b40821,
    0xf61e2562, 0xc040b340, 0x265e5a51, 0xe9b6c7aa,
    0xd62f105d, 0x02441453, 0xd8a1e681, 0xe7d3fbc8,
    0x21e1cde6, 0xc33707d6, 0xf4d50d87, 0x455a14ed,
    0xa9e3e905, 0xfcefa3f8, 0x676f02d9, 0x8d2a4c8a,
    0xfffa3942, 0x8771f681, 0x6d9d6122, 0xfde5380c,
    0xa4beea44, 0x4bdecfa9, 0xf6bb4b60, 0xbebfbc70,
    0x289b7ec6, 0xeaa127fa, 0xd4ef3085, 0x04881d05,
    0xd9d4d039, 0xe6db99e5, 0x1fa27cf8, 0xc4ac5665,
    0xf4292244, 0x432aff97, 0xab9423a7, 0xfc93a039,
    0x655b59c3, 0x8f0ccc92, 0xffeff47d, 0x85845dd1,
    0x6fa87e4f, 0xfe2ce6e0, 0xa3014314, 0x4e0811a1,
    0xf7537e82, 0xbd3af235, 0x2ad7d2bb, 0xeb86d391]"

definition md5_S :: "nat list" where
  "md5_S = [
    7, 12, 17, 22, 7, 12, 17, 22, 7, 12, 17, 22, 7, 12, 17, 22,
    5, 9, 14, 20, 5, 9, 14, 20, 5, 9, 14, 20, 5, 9, 14, 20,
    4, 11, 16, 23, 4, 11, 16, 23, 4, 11, 16, 23, 4, 11, 16, 23,
    6, 10, 15, 21, 6, 10, 15, 21, 6, 10, 15, 21, 6, 10, 15, 21]"

type_synonym md5_state = "32 word \<times> 32 word \<times> 32 word \<times> 32 word"

definition md5_init :: md5_state where
  "md5_init = (0x67452301, 0xefcdab89, 0x98badcfe, 0x10325476)"

definition le_word32 :: "bytes \<Rightarrow> 32 word" where
  "le_word32 bs = foldr (\<lambda>b w. push_bit 8 w OR ucast b) bs 0"

definition le_bytes :: "nat \<Rightarrow> nat \<Rightarrow> bytes" where
  "le_bytes k n = map (\<lambda>i. of_nat (n div 256 ^ i)) [0..<k]"

definition md5_pad :: "bytes \<Rightarrow> bytes" where
  "md5_pad msg =
     msg @ [0x80] @ replicate ((119 - length msg mod 64) mod 64) 0
         @ le_bytes 8 (8 * length msg)"

definition md5_words :: "bytes \<Rightarrow> 32 word list" where
  "md5_words chunk = map (\<lambda>i. le_word32 (take 4 (drop (4 * i) chunk))) [0..<16]"

definition md5_step :: "32 word list \<Rightarrow> md5_state \<Rightarrow> nat \<Rightarrow> md5_state" where
  "md5_step M st i =
     (case st of (A, B, C, D) \<Rightarrow>
        let F = (if i < 16 then (B AND C) OR (NOT B AND D)
                 else if i < 32 then (D AND B) OR (NOT D AND C)
                 else if i < 48 then B XOR C XOR D
                 else C XOR (B OR NOT D));
            g = (if i < 16 then i
                 else if i < 32 then (5 * i + 1) mod 16
                 else if i < 48 then (3 * i + 5) mod 16
                 else (7 * i) mod 16);
            F' = F + A + md5_K ! i + M ! g
        in (D, B + word_rotl (md5_S ! i) F', B, C))"

definition md5_chunk :: "bytes \<Rightarrow> md5_state \<Rightarrow> nat \<Rightarrow> md5_state" where
  "md5_chunk padded st j =
     (case st of (a0, b0, c0, d0) \<Rightarrow>
        case foldl (md5_step (md5_words (take 64 (drop (64 * j) padded)))) st [0..<64] of
          (A, B, C, D) \<Rightarrow> (a0 + A, b0 + B, c0 + C, d0 + D))"

definition md5_digest :: "bytes \<Rightarrow> bytes" where
  "md5_digest msg =
     (let padded = md5_pad msg in
      case foldl (md5_chunk padded) md5_init [0..<length padded div 64] of
        (a, b, c, d) \<Rightarrow> concat (map (\<lambda>w. le_bytes 4 (unat w)) [a, b, c, d]))"

definition hex_digit :: "nat \<Rightarrow> char" where
  "hex_digit n = ''0123456789abcdef'' ! (n mod 16)"

definition hexdigest :: "bytes \<Rightarrow> string" where
  "hexdigest bs = concat (map (\<lambda>b. [hex_digit (unat b div 16), hex_digit (unat b)]) bs)"

text \<open>
  \<^verbatim>\<open>str.encode()\<close>: a \<open>string\<close> here is the text's UTF-8 bytes already, one \<open>char\<close>
  per byte.
\<close>

definition encode :: "string \<Rightarrow> bytes" where
  "encode s = map (\<lambda>c. of_nat (of_char c)) s"

subsection \<open>Configuration\<close>

record server_config =
  host :: string
  port :: nat
  model_name :: string
  cache_dir :: string
  reference_audio :: string
  reference_text :: string
  device :: string

definition config0 :: server_config where
  "config0 = \<lparr> host = ''0.0.0.0'', port = 8765,
      model_name = ''Qwen/Qwen3-TTS-12Hz-0.6B-Base'',
      cache_dir = ''./cache'',
      reference_audio = ''./reference/gm-voice.wav'',
      reference_text = ''The shadows grow long as ancient evil stirs in the darkness.'',
      device = ''auto'' \<rparr>"

subsection \<open>The cache key\<close>

text \<open>
  \<^verbatim>\<open>f"{rate}"\<close>: \<^verbatim>\<open>str\<close> of the number. The shortest decimal that reads back as a
  given double is not modelled: \<open>float_repr\<close> is a parameter.
\<close>

fun str_nat :: "nat \<Rightarrow> string" where
  "str_nat n = (if n < 10 then [''0123456789'' ! n]
                else str_nat (n div 10) @ [''0123456789'' ! (n mod 10)])"

definition str_int :: "int \<Rightarrow> string" where
  "str_int i = (if i < 0 then CHR ''-'' # str_nat (nat (- i)) else str_nat (nat i))"

fun str_num :: "(rat \<Rightarrow> string) \<Rightarrow> pynum \<Rightarrow> string" where
  "str_num float_repr (PBool b) = (if b then ''True'' else ''False'')"
| "str_num float_repr (PInt i) = str_int i"
| "str_num float_repr (PFloat (Finite q)) = float_repr q"
| "str_num float_repr (PFloat PosInf) = ''inf''"
| "str_num float_repr (PFloat NegInf) = ''-inf''"
| "str_num float_repr (PFloat NaN) = ''nan''"

definition key_content :: "(rat \<Rightarrow> string) \<Rightarrow> server_config \<Rightarrow> string \<Rightarrow> pynum \<Rightarrow> string" where
  "key_content float_repr cfg text rate =
     text @ ''|'' @ str_num float_repr rate @ ''|'' @ model_name cfg"

definition get_cache_key :: "(rat \<Rightarrow> string) \<Rightarrow> server_config \<Rightarrow> string \<Rightarrow> pynum \<Rightarrow> string" where
  "get_cache_key float_repr cfg text rate =
     hexdigest (md5_digest (encode (key_content float_repr cfg text rate)))"

subsection \<open>The world outside the repository\<close>

text \<open>
  Opaque values of the \<^verbatim>\<open>qwen_tts\<close> library: a loaded model, a voice-clone prompt, a
  sample buffer. A write to disk either completes or raises; a failed write leaves the path
  untouched (\<open>None\<close>: \<^verbatim>\<open>open\<close> raised) or holding some partial contents.
\<close>

datatype qwen_model = QwenModel nat

datatype voice_clone_prompt = VoicePrompt nat

datatype audio_array = AudioArray nat

datatype write_outcome = Written | WriteFailed py_exception "bytes option"

text \<open>
  What each external call answers during one request. \<open>array_to_wav\<close> stands for
  \<^verbatim>\<open>TTSEngine._array_to_wav\<close> (numpy scaling to int16 and the \<^verbatim>\<open>wave\<close> writer), whose
  floating-point arithmetic is not modelled.
\<close>

record env =
  import_qwen_tts :: "py_exception option"
  cuda_is_available :: "py_exception + bool"
  from_pretrained :: "string \<Rightarrow> string \<Rightarrow> py_exception + qwen_model"
  mkdir_cache_dir :: "py_exception option"
  create_voice_clone_prompt ::
    "qwen_model \<Rightarrow> string \<Rightarrow> string \<Rightarrow> py_exception + voice_clone_prompt"
  generate :: "qwen_model \<Rightarrow> string \<Rightarrow> pynum \<Rightarrow> py_exception + audio_array \<times> nat"
  generate_voice_clone ::
    "qwen_model \<Rightarrow> string \<Rightarrow> voice_clone_prompt \<Rightarrow> pynum \<Rightarrow> py_exception + audio_array \<times> nat"
  array_to_wav :: "audio_array \<Rightarrow> nat \<Rightarrow> py_exception + bytes"
  read_cache_file :: "py_exception option"
  write_cache_file :: write_outcome
  mkdir_ref_dir :: "py_exception option"
  save_reference :: write_outcome

text \<open>The calls made to the outside, in order: a record kept beside the state.\<close>

datatype call =
    CallImport
  | CallFromPretrained string string
  | CallCreatePrompt string string
  | CallGenerate string pynum
  | CallGenerateClone string voice_clone_prompt pynum

subsection \<open>State: the engine, the configuration, the files\<close>

record tts_engine =
  model :: "qwen_model option"
  voice_prompt :: "voice_clone_prompt option"
  audio_cache :: "string \<rightharpoonup> bytes"
  initialized :: bool
  download_progress :: nat

text \<open>
  \<open>cache_files k\<close> is the file \<^verbatim>\<open>cache_dir/k.wav\<close>; \<open>reference_file\<close> is the file at
  \<^verbatim>\<open>config.reference_audio\<close>.
\<close>

record server =
  config :: server_config
  engine :: tts_engine
  cache_files :: "string \<rightharpoonup> bytes"
  reference_file :: "bytes option"
  calls :: "call list"

definition engine0 :: tts_engine where
  "engine0 = \<lparr> model = None, voice_prompt = None, audio_cache = Map.empty,
      initialized = False, download_progress = 0 \<rparr>"

text \<open>The process as it starts, on a disk that may hold files of earlier runs.\<close>

definition server_start :: "(string \<rightharpoonup> bytes) \<Rightarrow> bytes option \<Rightarrow> server" where
  "server_start files ref =
     \<lparr> config = config0, engine = engine0, cache_files = files, reference_file = ref,
       calls = [] \<rparr>"

definition log_call :: "call \<Rightarrow> server \<Rightarrow> server" where
  "log_call c s = s\<lparr>calls := calls s @ [c]\<rparr>"

definition set_voice_prompt :: "voice_clone_prompt option \<Rightarrow> server \<Rightarrow> server" where
  "set_voice_prompt p s = s\<lparr>engine := (engine s)\<lparr>voice_prompt := p\<rparr>\<rparr>"

definition set_audio_cache :: "string \<Rightarrow> bytes \<Rightarrow> server \<Rightarrow> server" where
  "set_audio_cache k v s =
     s\<lparr>engine := (engine s)\<lparr>audio_cache := (audio_cache (engine s))(k \<mapsto> v)\<rparr>\<rparr>"

definition has_voice_clone :: "server \<Rightarrow> bool" where
  "has_voice_clone s = (voice_prompt (engine s) \<noteq> None)"

definition is_initialized :: "server \<Rightarrow> bool" where
  "is_initialized s = initialized (engine s)"

subsection \<open>\<^verbatim>\<open>TTSEngine._load_voice_prompt\<close>\<close>

text \<open>
  The missing-file branch returns at once. Inside the \<^verbatim>\<open>try\<close>, a \<^verbatim>\<open>None\<close> model makes
  the attribute access raise, and every exception ends in \<^verbatim>\<open>self.voice_prompt = None\<close>.
\<close>

definition load_voice_prompt :: "env \<Rightarrow> server \<Rightarrow> (py_exception + unit) \<times> server" where
  "load_voice_prompt ev s =
     (if reference_file s = None then (Inr (), s)
      else
        case model (engine s) of
          None \<Rightarrow> (Inr (), set_voice_prompt None s)
        | Some m \<Rightarrow>
            let s1 = log_call (CallCreatePrompt (reference_audio (config s))
                                (reference_text (config s))) s
            in case create_voice_clone_prompt ev m (reference_audio (config s))
                      (reference_text (config s)) of
                 Inl e \<Rightarrow> (Inr (), set_voice_prompt None s1)
               | Inr p \<Rightarrow> (Inr (), set_voice_prompt (Some p) s1))"

subsection \<open>\<^verbatim>\<open>TTSEngine.initialize\<close>\<close>

definition resolve_device :: "env \<Rightarrow> server_config \<Rightarrow> py_exception + string" where
  "resolve_device ev cfg =
     (if device cfg = ''auto'' then
        (case cuda_is_available ev of
           Inl e \<Rightarrow> Inl e
         | Inr cuda \<Rightarrow> Inr (if cuda then ''cuda'' else ''cpu''))
      else Inr (device cfg))"

definition initialize :: "env \<Rightarrow> server \<Rightarrow> (py_exception + unit) \<times> server" where
  "initialize ev s =
     (if initialized (engine s) then (Inr (), s)
      else
        let s0 = log_call CallImport s in
        case import_qwen_tts ev of
          Some e \<Rightarrow> (Inl e, s0)
        | None \<Rightarrow>
            (case resolve_device ev (config s0) of
               Inl e \<Rightarrow> (Inl e, s0)
             | Inr dev \<Rightarrow>
                 let s1 = log_call (CallFromPretrained (model_name (config s0)) dev) s0 in
                 (case from_pretrained ev (model_name (config s0)) dev of
                    Inl e \<Rightarrow> (Inl e, s1)
                  | Inr m \<Rightarrow>
                      let s2 = s1\<lparr>engine := (engine s1)\<lparr>model := Some m\<rparr>\<rparr> in
                      (case mkdir_cache_dir ev of
                         Some e \<Rightarrow> (Inl e, s2)
                       | None \<Rightarrow>
                           (case load_voice_prompt ev s2 of
                              (Inl e, s3) \<Rightarrow> (Inl e, s3)
                            | (Inr u, s3) \<Rightarrow>
                                (Inr (), s3\<lparr>engine := (engine s3)\<lparr>initialized := True\<rparr>\<rparr>))))))"

subsection \<open>\<^verbatim>\<open>TTSEngine.synthesize\<close>\<close>

text \<open>
  The block under \<^verbatim>\<open># Generate speech\<close>: the capability call, the WAV conversion, then
  the memory entry and after it the file.
\<close>

definition generate_speech ::
  "env \<Rightarrow> server \<Rightarrow> string \<Rightarrow> string \<Rightarrow> pynum \<Rightarrow> (py_exception + bytes) \<times> server" where
  "generate_speech ev s cache_key text rate =
     (case (case voice_prompt (engine s) of
              Some p \<Rightarrow>
                (case model (engine s) of
                   None \<Rightarrow> (Inl (AttributeError ''generate_voice_clone''), s)
                 | Some m \<Rightarrow> (generate_voice_clone ev m text p rate,
                              log_call (CallGenerateClone text p rate) s))
            | None \<Rightarrow>
                (case model (engine s) of
                   None \<Rightarrow> (Inl (AttributeError ''generate''), s)
                 | Some m \<Rightarrow> (generate ev m text rate, log_call (CallGenerate text rate) s))) of
        (Inl e, s1) \<Rightarrow> (Inl e, s1)
      | (Inr (audio, sample_rate), s1) \<Rightarrow>
          (case array_to_wav ev audio sample_rate of
             Inl e \<Rightarrow> (Inl e, s1)
           | Inr audio_data \<Rightarrow>
               let s2 = set_audio_cache cache_key audio_data s1 in
               (case write_cache_file ev of
                  Written \<Rightarrow>
                    (Inr audio_data, s2\<lparr>cache_files := (cache_files s2)(cache_key \<mapsto> audio_data)\<rparr>)
                | WriteFailed e None \<Rightarrow> (Inl e, s2)
                | WriteFailed e (Some partial) \<Rightarrow>
                    (Inl e, s2\<lparr>cache_files := (cache_files s2)(cache_key \<mapsto> partial)\<rparr>))))"

definition synthesize ::
  "(rat \<Rightarrow> string) \<Rightarrow> env \<Rightarrow> server \<Rightarrow> string \<Rightarrow> pynum \<Rightarrow> (py_exception + bytes) \<times> server" where
  "synthesize float_repr ev s text rate =
     (case (if \<not> initialized (engine s) then initialize ev s else (Inr (), s)) of
        (Inl e, s1) \<Rightarrow> (Inl e, s1)
      | (Inr u, s1) \<Rightarrow>
          let cache_key = get_cache_key float_repr (config s1) text rate in
          (case audio_cache (engine s1) cache_key of
             Some audio_data \<Rightarrow> (Inr audio_data, s1)
           | None \<Rightarrow>
               (case cache_files s1 cache_key of
                  Some file_data \<Rightarrow>
                    (case read_cache_file ev of
                       Some e \<Rightarrow> (Inl e, s1)
                     | None \<Rightarrow> (Inr file_data, set_audio_cache cache_key file_data s1))
                | None \<Rightarrow> generate_speech ev s1 cache_key text rate)))"

section \<open>The routes\<close>

datatype body = JsonBody json | AudioBody bytes

record response =
  status :: nat
  mimetype :: string
  headers :: "(string \<times> string) list"
  body :: body

text \<open>\<^verbatim>\<open>jsonify(obj)\<close>, and \<^verbatim>\<open>(jsonify(obj), code)\<close>.\<close>

definition jsonify :: "nat \<Rightarrow> json \<Rightarrow> response" where
  "jsonify code j =
     \<lparr> status = code, mimetype = ''application/json'', headers = [], body = JsonBody j \<rparr>"

text \<open>The member of a JSON object response, if the response is one.\<close>

definition response_member :: "response \<Rightarrow> string \<Rightarrow> json option" where
  "response_member r k = (case body r of JsonBody (JObj kvs) \<Rightarrow> map_of kvs k | _ \<Rightarrow> None)"

subsection \<open>\<^verbatim>\<open>POST /synthesize\<close>\<close>

text \<open>
  The parsed body of a request, as the route's docstring has it: an object whose
  \<^verbatim>\<open>text\<close> member, when present, is a string; \<^verbatim>\<open>rate\<close> may be any JSON value; the other
  members are not read. \<^verbatim>\<open>request.get_json()\<close> answers such an object or \<^verbatim>\<open>None\<close>, or
  raises (a body that is not JSON), inside the route's \<^verbatim>\<open>try\<close>.
\<close>

record synth_json =
  text_member :: "string option"
  rate_member :: "json option"
  other_members :: "(string \<times> json) list"

text \<open>\<^verbatim>\<open>not data\<close>: \<^verbatim>\<open>None\<close> or the empty object.\<close>

definition falsy :: "synth_json option \<Rightarrow> bool" where
  "falsy data =
     (case data of
        None \<Rightarrow> True
      | Some d \<Rightarrow> text_member d = None \<and> rate_member d = None \<and> other_members d = [])"

text \<open>
  \<^verbatim>\<open>max(0.5, min(2.0, rate))\<close>: comparing a float with a value that is not a number
  raises \<^verbatim>\<open>TypeError\<close>.
\<close>

definition clamp_rate :: "json \<Rightarrow> py_exception + pynum" where
  "clamp_rate r =
     (case json_num r of
        None \<Rightarrow> Inl (TypeError ''not supported between instances'')
      | Some n \<Rightarrow> Inr (py_max (PFloat (Finite (1 / 2))) (py_min (PFloat (Finite 2)) n)))"

definition audio_response :: "bytes \<Rightarrow> response" where
  "audio_response audio_data =
     \<lparr> status = 200, mimetype = ''audio/wav'',
       headers = [(''Content-Disposition'', ''inline; filename=speech.wav''),
                  (''Cache-Control'', ''public, max-age=3600'')],
       body = AudioBody audio_data \<rparr>"

definition error_response :: "nat \<Rightarrow> string \<Rightarrow> response" where
  "error_response code msg = jsonify code (JObj [(''error'', JStr msg)])"

text \<open>The message \<^verbatim>\<open>Missing 'text' field\<close>.\<close>

definition missing_text :: string where
  "missing_text = ''Missing '' @ [CHR 0x27] @ ''text'' @ [CHR 0x27] @ '' field''"

definition synthesize_route ::
  "(rat \<Rightarrow> string) \<Rightarrow> env \<Rightarrow> server \<Rightarrow> py_exception + synth_json option \<Rightarrow> response \<times> server" where
  "synthesize_route float_repr ev s req =
     (case req of
        Inl e \<Rightarrow> (error_response 500 (str_exc e), s)
      | Inr data \<Rightarrow>
          (case (if falsy data then None else data) of
             None \<Rightarrow> (error_response 400 missing_text, s)
           | Some d \<Rightarrow>
               (case text_member d of
                  None \<Rightarrow> (error_response 400 missing_text, s)
                | Some text \<Rightarrow>
                    (case clamp_rate (case rate_member d of
                                        None \<Rightarrow> JFloat (Finite 1)
                                      | Some r \<Rightarrow> r) of
                       Inl e \<Rightarrow> (error_response 500 (str_exc e), s)
                     | Inr rate \<Rightarrow>
                         (case synthesize float_repr ev s text rate of
                            (Inl e, s1) \<Rightarrow> (error_response 500 (str_exc e), s1)
                          | (Inr audio_data, s1) \<Rightarrow> (audio_response audio_data, s1))))))"

subsection \<open>\<^verbatim>\<open>GET /health\<close>, \<^verbatim>\<open>GET /voices\<close>, \<^verbatim>\<open>GET /status\<close>\<close>

definition health_check :: "server \<Rightarrow> response" where
  "health_check s =
     jsonify 200 (JObj [
       (''status'', JStr ''ok''),
       (''initialized'', JBool (is_initialized s)),
       (''voice_clone_active'', JBool (if is_initialized s then has_voice_clone s else False)),
       (''model'', JStr (model_name (config s)))])"

definition list_voices :: "server \<Rightarrow> response" where
  "list_voices s =
     jsonify 200 (JArr [JObj [
       (''id'', JStr ''gm-narrator''),
       (''name'', JStr ''Game Master (Lovecraft)''),
       (''lang'', JStr ''en''),
       (''description'', JStr ''Mysterious narrator voice for GM commentary''),
       (''status'', JStr (if is_initialized s \<and> has_voice_clone s then ''active''
                          else ''default''))]])"

definition get_status :: "server \<Rightarrow> response" where
  "get_status s =
     jsonify 200 (JObj [
       (''status'', JStr ''ok''),
       (''initialized'', JBool (is_initialized s)),
       (''voice_clone_active'', JBool (if is_initialized s then has_voice_clone s else False)),
       (''model'', JStr (model_name (config s))),
       (''device'', JStr (device (config s))),
       (''cache_dir'', JStr (cache_dir (config s))),
       (''reference_audio_exists'', JBool (reference_file s \<noteq> None))])"

subsection \<open>\<^verbatim>\<open>POST /reference\<close>\<close>

text \<open>
  The multipart form: the uploaded file, if any, and the \<^verbatim>\<open>text\<close> field, if any. The
  route has no \<^verbatim>\<open>try\<close>: an exception of \<^verbatim>\<open>mkdir\<close> or \<^verbatim>\<open>save\<close> leaves the view
  (\<open>Inl\<close>).
\<close>

record reference_form =
  audio_file :: "bytes option"
  form_text :: "string option"

definition upload_reference ::
  "env \<Rightarrow> server \<Rightarrow> reference_form \<Rightarrow> (py_exception + response) \<times> server" where
  "upload_reference ev s form =
     (case audio_file form of
        None \<Rightarrow> (Inr (error_response 400 ''No audio file provided''), s)
      | Some audio \<Rightarrow>
          let text = (case form_text form of
                        None \<Rightarrow> reference_text (config s)
                      | Some t \<Rightarrow> t)
          in
          (case mkdir_ref_dir ev of
             Some e \<Rightarrow> (Inl e, s)
           | None \<Rightarrow>
               (case save_reference ev of
                  WriteFailed e None \<Rightarrow> (Inl e, s)
                | WriteFailed e (Some partial) \<Rightarrow> (Inl e, s\<lparr>reference_file := Some partial\<rparr>)
                | Written \<Rightarrow>
                    let s1 = s\<lparr>reference_file := Some audio\<rparr>;
                        s2 = s1\<lparr>config := (config s1)\<lparr>reference_text := text\<rparr>\<rparr>
                    in
                    (case load_voice_prompt ev s2 of
                       (Inl e, s3) \<Rightarrow> (Inl e, s3)
                     | (Inr u, s3) \<Rightarrow>
                         (Inr (jsonify 200 (JObj [
                            (''status'', JStr ''ok''),
                            (''message'', JStr ''Reference audio updated''),
                            (''voice_clone_active'', JBool (has_voice_clone s3))])), s3)))))"

subsection \<open>The server as a transition system\<close>

datatype request =
    GetHealth
  | PostSynthesize "py_exception + synth_json option"
  | GetVoices
  | PostReference reference_form
  | GetStatus

fun handle ::
  "(rat \<Rightarrow> string) \<Rightarrow> env \<Rightarrow> request \<Rightarrow> server \<Rightarrow> (py_exception + response) \<times> server" where
  "handle float_repr ev GetHealth s = (Inr (health_check s), s)"
| "handle float_repr ev (PostSynthesize req) s =
     (case synthesize_route float_repr ev s req of (r, s1) \<Rightarrow> (Inr r, s1))"
| "handle float_repr ev GetVoices s = (Inr (list_voices s), s)"
| "handle float_repr ev (PostReference form) s = upload_reference ev s form"
| "handle float_repr ev GetStatus s = (Inr (get_status s), s)"

text \<open>
  What happens to the server over time: a request is served, with its own outside world,
  or something else rewrites the disk (the cache directory and the reference clip are
  ordinary files).
\<close>

datatype step =
    Request env request
  | DiskChanged "string \<rightharpoonup> bytes" "bytes option"

fun run :: "(rat \<Rightarrow> string) \<Rightarrow> step list \<Rightarrow> server \<Rightarrow> server" where
  "run float_repr [] s = s"
| "run float_repr (Request ev rq # rest) s =
     run float_repr rest (snd (handle float_repr ev rq s))"
| "run float_repr (DiskChanged files ref # rest) s =
     run float_repr rest (s\<lparr>cache_files := files, reference_file := ref\<rparr>)"

text \<open>The calls that belong to initialization and profile building, not to synthesis.\<close>

fun is_synthesis_call :: "call \<Rightarrow> bool" where
  "is_synthesis_call (CallGenerate t r) = True"
| "is_synthesis_call (CallGenerateClone t p r) = True"
| "is_synthesis_call _ = False"


subsection \<open>Relations between states\<close>

text \<open>
  \<open>extends s s'\<close>: from \<open>s\<close> to \<open>s'\<close> the model identifier is the same, the
  initialized flag has not been reset and no memory-cache entry has been removed or changed.
  \<open>profile_needs_model\<close>: a voice prompt is only held together with a model.
\<close>

definition extends :: "server \<Rightarrow> server \<Rightarrow> bool" where
  "extends s s' \<longleftrightarrow>
     model_name (config s') = model_name (config s) \<and>
     (initialized (engine s) \<longrightarrow> initialized (engine s')) \<and>
     (\<forall>k v. audio_cache (engine s) k = Some v \<longrightarrow> audio_cache (engine s') k = Some v)"


subsection \<open>Example inputs\<close>

text \<open>
  An outside world in which every call succeeds (no GPU, a model that answers sample
  buffer 0 in the default voice and 1 in a cloned voice), a rendering of the three rates
  the examples use, and two request bodies.
\<close>

definition env_ok :: env where
  "env_ok = \<lparr>
     import_qwen_tts = None,
     cuda_is_available = Inr False,
     from_pretrained = (\<lambda>name dev. Inr (QwenModel 0)),
     mkdir_cache_dir = None,
     create_voice_clone_prompt = (\<lambda>m path txt. Inr (VoicePrompt 0)),
     generate = (\<lambda>m txt rate. Inr (AudioArray 0, 24000)),
     generate_voice_clone = (\<lambda>m txt p rate. Inr (AudioArray 1, 24000)),
     array_to_wav = (\<lambda>a sr. case a of AudioArray n \<Rightarrow> Inr [0x52, 0x49, 0x46, 0x46, of_nat n]),
     read_cache_file = None,
     write_cache_file = Written,
     mkdir_ref_dir = None,
     save_reference = Written \<rparr>"

text \<open>Variations: one call answers differently.\<close>

definition env_other_audio :: env where
  "env_other_audio = env_ok\<lparr>generate := (\<lambda>m txt rate. Inr (AudioArray 7, 24000))\<rparr>"

definition env_disk_full :: env where
  "env_disk_full =
     env_ok\<lparr>write_cache_file := WriteFailed (OSError ''No space left on device'') None\<rparr>"

definition env_mkdir_fails :: env where
  "env_mkdir_fails = env_ok\<lparr>mkdir_cache_dir := Some (OSError ''File exists: cache'')\<rparr>"

definition env_no_qwen :: env where
  "env_no_qwen = env_ok\<lparr>import_qwen_tts := Some (ImportError ''No module named qwen_tts'')\<rparr>"



definition example_repr :: "rat \<Rightarrow> string" where
  "example_repr q = (if q = 2 then ''2.0'' else if q = 1 / 2 then ''0.5'' else ''1.0'')"

definition hello_body :: synth_json where
  "hello_body = \<lparr> text_member = Some ''Hello world'', rate_member = None, other_members = [] \<rparr>"

definition rate_body :: "string \<Rightarrow> json \<Rightarrow> synth_json" where
  "rate_body t r = \<lparr> text_member = Some t, rate_member = Some r, other_members = [] \<rparr>"

section \<open>Properties\<close>

subsection \<open>The cache key\<close>









subsection \<open>What each operation leaves unchanged\<close>

lemma extends_refl: "extends s s"
  by (simp add: extends_def)

lemma extends_trans: "extends s s1 \<Longrightarrow> extends s1 s2 \<Longrightarrow> extends s s2"
  by (simp add: extends_def)

lemma load_voice_prompt_ok: "fst (load_voice_prompt ev s) = Inr ()"
  by (simp add: load_voice_prompt_def Let_def split: option.splits sum.splits)

lemma load_voice_prompt_extends: "extends s (snd (load_voice_prompt ev s))"
  by (simp add: load_voice_prompt_def Let_def extends_def set_voice_prompt_def log_call_def
      split: option.splits sum.splits)

lemma load_voice_prompt_frame:
  "model (engine (snd (load_voice_prompt ev s))) = model (engine s) \<and>
   initialized (engine (snd (load_voice_prompt ev s))) = initialized (engine s) \<and>
   audio_cache (engine (snd (load_voice_prompt ev s))) = audio_cache (engine s) \<and>
   config (snd (load_voice_prompt ev s)) = config s \<and>
   cache_files (snd (load_voice_prompt ev s)) = cache_files s \<and>
   reference_file (snd (load_voice_prompt ev s)) = reference_file s"
  by (simp add: load_voice_prompt_def Let_def set_voice_prompt_def log_call_def
      split: option.splits sum.splits)


lemma load_voice_prompt_result:
  assumes "load_voice_prompt ev s = (r, s')"
  shows "r = Inr () \<and> model (engine s') = model (engine s) \<and>
    initialized (engine s') = initialized (engine s) \<and>
    audio_cache (engine s') = audio_cache (engine s) \<and>
    config s' = config s \<and> cache_files s' = cache_files s \<and>
    reference_file s' = reference_file s"
  using load_voice_prompt_ok [of ev s] load_voice_prompt_frame [of ev s] assms by simp

lemma initialize_extends: "extends s (snd (initialize ev s))"
  by (auto simp: initialize_def Let_def extends_def log_call_def
      split: option.splits sum.splits prod.splits dest!: load_voice_prompt_result)

lemma initialize_config: "config (snd (initialize ev s)) = config s"
  by (auto simp: initialize_def Let_def log_call_def
      split: option.splits sum.splits prod.splits dest!: load_voice_prompt_result)

lemma initialize_files:
  "cache_files (snd (initialize ev s)) = cache_files s \<and>
   reference_file (snd (initialize ev s)) = reference_file s \<and>
   audio_cache (engine (snd (initialize ev s))) = audio_cache (engine s)"
  by (auto simp: initialize_def Let_def log_call_def
      split: option.splits sum.splits prod.splits dest!: load_voice_prompt_result)

lemma initialize_flag:
  "initialized (engine (snd (initialize ev s))) =
     (initialized (engine s) \<or> fst (initialize ev s) = Inr ())"
  by (auto simp: initialize_def Let_def log_call_def
      split: option.splits sum.splits prod.splits dest!: load_voice_prompt_result)



lemma generate_speech_frame:
  assumes "generate_speech ev s k t r = (res, s')"
  shows "model (engine s') = model (engine s) \<and>
    voice_prompt (engine s') = voice_prompt (engine s) \<and>
    initialized (engine s') = initialized (engine s) \<and>
    config s' = config s \<and> reference_file s' = reference_file s \<and>
    (\<forall>k'. k' \<noteq> k \<longrightarrow> audio_cache (engine s') k' = audio_cache (engine s) k') \<and>
    (\<forall>k'. k' \<noteq> k \<longrightarrow> cache_files s' k' = cache_files s k')"
  using assms
  by (auto simp: generate_speech_def Let_def set_audio_cache_def log_call_def
      split: option.splits sum.splits prod.splits write_outcome.splits)

lemma generate_speech_success:
  assumes "generate_speech ev s k t r = (Inr b, s')"
  shows "audio_cache (engine s') k = Some b \<and> cache_files s' k = Some b"
  using assms
  by (auto simp: generate_speech_def Let_def set_audio_cache_def log_call_def
      split: option.splits sum.splits prod.splits write_outcome.splits)

lemma generate_speech_extends:
  assumes "generate_speech ev s k t r = (res, s')" and "audio_cache (engine s) k = None"
  shows "extends s s'"
proof -
  note f = generate_speech_frame [OF assms(1)]
  have "audio_cache (engine s') k' = Some v" if "audio_cache (engine s) k' = Some v" for k' v
  proof -
    from that assms(2) have "k' \<noteq> k" by auto
    with f that show ?thesis by simp
  qed
  with f show ?thesis by (simp add: extends_def)
qed

lemma synthesize_extends: "extends s (snd (synthesize fr ev s t r))"
proof -
  define i where "i = (if \<not> initialized (engine s) then initialize ev s else (Inr (), s))"
  obtain ri s1 where i: "i = (ri, s1)" by (cases i)
  have e1: "extends s s1"
    using i initialize_extends [of s ev] by (auto simp: i_def extends_refl split: if_splits)
  show ?thesis
  proof (cases ri)
    case (Inl e)
    then show ?thesis using i e1 by (simp add: synthesize_def i_def [symmetric])
  next
    case (Inr u)
    define k where "k = get_cache_key fr (config s1) t r"
    show ?thesis
    proof (cases "audio_cache (engine s1) k")
      case (Some b)
      then show ?thesis using i Inr e1 by (simp add: synthesize_def i_def [symmetric] k_def Let_def)
    next
      case None
      show ?thesis
      proof (cases "cache_files s1 k")
        case (Some b)
        have "extends s1 (set_audio_cache k b s1)"
          using None by (auto simp: extends_def set_audio_cache_def)
        then have "extends s (set_audio_cache k b s1)" using e1 extends_trans by blast
        then show ?thesis using i Inr e1 None Some
          by (simp add: synthesize_def i_def [symmetric] k_def Let_def split: option.splits)
      next
        case nf: None
        obtain res s2 where g: "generate_speech ev s1 k t r = (res, s2)"
          by (cases "generate_speech ev s1 k t r")
        have "extends s s2" using generate_speech_extends [OF g None] e1 extends_trans by blast
        then show ?thesis using i Inr None nf g
          by (simp add: synthesize_def i_def [symmetric] k_def Let_def)
      qed
    qed
  qed
qed

lemma synthesize_success:
  assumes "synthesize fr ev s t r = (Inr b, s')"
  shows "initialized (engine s') \<and>
    audio_cache (engine s') (get_cache_key fr (config s) t r) = Some b"
proof -
  define i where "i = (if \<not> initialized (engine s) then initialize ev s else (Inr (), s))"
  obtain ri s1 where i: "i = (ri, s1)" by (cases i)
  have c1: "config s1 = config s"
    using i initialize_config [of ev s] by (auto simp: i_def split: if_splits)
  show ?thesis
  proof (cases ri)
    case (Inl e)
    then show ?thesis using i assms by (simp add: synthesize_def i_def [symmetric])
  next
    case (Inr u)
    have i1: "initialized (engine s1)"
      using i Inr initialize_flag [of ev s] by (auto simp: i_def split: if_splits)
    define k where "k = get_cache_key fr (config s) t r"
    show ?thesis
    proof (cases "audio_cache (engine s1) k")
      case (Some b')
      then show ?thesis using i Inr i1 assms c1
        by (auto simp: synthesize_def i_def [symmetric] k_def Let_def)
    next
      case None
      show ?thesis
      proof (cases "cache_files s1 k")
        case (Some b')
        then show ?thesis using i Inr i1 None assms c1
          by (auto simp: synthesize_def i_def [symmetric] k_def Let_def set_audio_cache_def
              split: option.splits)
      next
        case nf: None
        have g: "generate_speech ev s1 k t r = (Inr b, s')"
          using i Inr None nf assms c1
          by (simp add: synthesize_def i_def [symmetric] k_def Let_def)
        show ?thesis
          using generate_speech_success [OF g] generate_speech_frame [OF g] i1
          by (simp add: k_def)
      qed
    qed
  qed
qed



lemma synthesize_route_state:
  "snd (synthesize_route fr ev s req) = s \<or>
   (\<exists>t r. snd (synthesize_route fr ev s req) = snd (synthesize fr ev s t r))"
  by (auto simp: synthesize_route_def split: sum.splits option.splits prod.splits if_splits)
    (metis snd_conv)+

lemma synthesize_route_extends: "extends s (snd (synthesize_route fr ev s req))"
  using synthesize_route_state [of fr ev s req] synthesize_extends [of s fr ev]
  by (auto simp: extends_refl)


lemma upload_reference_extends: "extends s (snd (upload_reference ev s form))"
  by (auto simp: upload_reference_def Let_def extends_def
      split: option.splits write_outcome.splits prod.splits sum.splits
      dest!: load_voice_prompt_result)



lemma handle_extends: "extends s (snd (handle fr ev rq s))"
  by (cases rq)
    (simp_all add: extends_refl synthesize_route_extends upload_reference_extends
      split: prod.splits, metis synthesize_route_extends snd_conv)


lemma run_extends: "extends s (run fr steps s)"
proof (induction steps arbitrary: s)
  case Nil
  show ?case by (simp add: extends_refl)
next
  case (Cons st steps)
  show ?case
  proof (cases st)
    case (Request ev rq)
    then show ?thesis
      using Cons.IH [of "snd (handle fr ev rq s)"] handle_extends [of s fr ev rq] extends_trans
      by auto
  next
    case (DiskChanged files ref)
    have "extends s (s\<lparr>cache_files := files, reference_file := ref\<rparr>)"
      by (simp add: extends_def)
    then show ?thesis
      using DiskChanged Cons.IH [of "s\<lparr>cache_files := files, reference_file := ref\<rparr>"]
        extends_trans by auto
  qed
qed


lemma get_cache_key_model_name:
  "model_name cfg' = model_name cfg \<Longrightarrow> get_cache_key fr cfg' t r = get_cache_key fr cfg t r"
  by (simp add: get_cache_key_def key_content_def)

lemma synthesize_hit:
  assumes "initialized (engine s)"
    and "audio_cache (engine s) (get_cache_key fr (config s) t r) = Some b"
  shows "synthesize fr ev s t r = (Inr b, s)"
  using assms by (simp add: synthesize_def Let_def)

subsection \<open>Evaluating a call\<close>

lemma synthesize_after_initialize:
  assumes "initialize ev s = (Inr (), s1)"
  shows "synthesize fr ev s t r =
    (let k = get_cache_key fr (config s) t r in
     case audio_cache (engine s) k of
       Some b \<Rightarrow> (Inr b, s1)
     | None \<Rightarrow>
        (case cache_files s k of
           Some b \<Rightarrow>
             (case read_cache_file ev of
                Some e \<Rightarrow> (Inl e, s1)
              | None \<Rightarrow> (Inr b, set_audio_cache k b s1))
         | None \<Rightarrow> generate_speech ev s1 k t r))"
proof -
  have i: "(if \<not> initialized (engine s) then initialize ev s else (Inr (), s)) = (Inr (), s1)"
    using assms by (auto simp: initialize_def)
  have c: "config s1 = config s" using initialize_config [of ev s] assms by simp
  have f: "cache_files s1 = cache_files s" "audio_cache (engine s1) = audio_cache (engine s)"
    using initialize_files [of ev s] assms by simp_all
  show ?thesis by (simp add: synthesize_def i c f Let_def split: option.splits)
qed

lemma generate_speech_calls:
  assumes "generate_speech ev s k t r = (res, s')"
  shows "calls s' = calls s \<or> (\<exists>c. is_synthesis_call c \<and> calls s' = calls s @ [c])"
  using assms
  by (auto simp: generate_speech_def Let_def set_audio_cache_def log_call_def
      split: option.splits sum.splits prod.splits write_outcome.splits)

lemma generate_speech_calls_model:
  assumes "generate_speech ev s k t r = (res, s')" and "model (engine s) = Some m"
  shows "\<exists>c. is_synthesis_call c \<and> calls s' = calls s @ [c]"
  using assms
  by (auto simp: generate_speech_def Let_def set_audio_cache_def log_call_def
      split: option.splits sum.splits prod.splits write_outcome.splits)

lemmas eval_defs = synthesize_def initialize_def load_voice_prompt_def generate_speech_def
  resolve_device_def server_start_def engine0_def config0_def env_ok_def log_call_def
  set_audio_cache_def set_voice_prompt_def Let_def

lemma generate_speech_write_failed:
  assumes "model (engine s) = Some m"
    and "(case voice_prompt (engine s) of
            Some p \<Rightarrow> generate_voice_clone ev m t p r
          | None \<Rightarrow> generate ev m t r) = Inr (a, sr)"
    and "array_to_wav ev a sr = Inr data"
    and "write_cache_file ev = WriteFailed e left"
  shows "fst (generate_speech ev s k t r) = Inl e \<and>
    audio_cache (engine (snd (generate_speech ev s k t r))) k = Some data \<and>
    cache_files (snd (generate_speech ev s k t r)) k = (case left of None \<Rightarrow> cache_files s k | Some p \<Rightarrow> Some p)"
  using assms
  by (auto simp: generate_speech_def Let_def set_audio_cache_def log_call_def
      split: option.splits)

lemmas route_defs = synthesize_route_def upload_reference_def falsy_def clamp_rate_def
  py_min_def py_max_def py_lt_def hello_body_def rate_body_def error_response_def
  jsonify_def audio_response_def has_voice_clone_def

subsection \<open>The route and the clamp\<close>

lemma clamped_value:
  "finite_value (py_max (PFloat (Finite (1 / 2))) (py_min (PFloat (Finite 2)) n)) =
     Some (case to_float n of
             Finite x \<Rightarrow> max (1 / 2) (min 2 x)
           | PosInf \<Rightarrow> 2 | NegInf \<Rightarrow> 1 / 2 | NaN \<Rightarrow> 2)"
  by (cases "to_float n"; cases n)
    (auto simp: py_min_def py_max_def py_lt_def split: if_splits)

lemma clamp_rate_value:
  assumes "json_num j = Some n"
  shows "\<exists>c q. clamp_rate j = Inr c \<and> finite_value c = Some q \<and> 1 / 2 \<le> q \<and> q \<le> 2 \<and>
    (\<forall>x. finite_value n = Some x \<longrightarrow> q = max (1 / 2) (min 2 x))"
proof -
  let ?c = "py_max (PFloat (Finite (1 / 2))) (py_min (PFloat (Finite 2)) n)"
  let ?q = "case to_float n of
             Finite x \<Rightarrow> max (1 / 2) (min 2 x)
           | PosInf \<Rightarrow> 2 | NegInf \<Rightarrow> 1 / 2 | NaN \<Rightarrow> (2::rat)"
  have 1: "clamp_rate j = Inr ?c" using assms by (simp add: clamp_rate_def)
  have 2: "finite_value ?c = Some ?q" by (rule clamped_value)
  have 3: "1 / 2 \<le> ?q \<and> ?q \<le> 2" by (cases "to_float n") auto
  have 4: "\<forall>x. finite_value n = Some x \<longrightarrow> ?q = max (1 / 2) (min 2 x)"
    by (cases "to_float n") auto
  show ?thesis using 1 2 3 4 by blast
qed

lemma clamp_rate_float:
  "clamp_rate (JFloat (Finite q)) =
     Inr (PFloat (Finite (if q < 2 then (if 1 / 2 < q then q else 1 / 2) else 2)))"
  by (simp add: clamp_rate_def py_min_def py_max_def py_lt_def)

lemma synthesize_route_text:
  assumes "text_member d = Some t"
    and "clamp_rate (case rate_member d of None \<Rightarrow> JFloat (Finite 1) | Some x \<Rightarrow> x) = Inr c"
  shows "synthesize_route fr ev s (Inr (Some d)) =
    (case synthesize fr ev s t c of
       (Inl e, s1) \<Rightarrow> (error_response 500 (str_exc e), s1)
     | (Inr a, s1) \<Rightarrow> (audio_response a, s1))"
  using assms by (simp add: synthesize_route_def falsy_def)

lemma synthesize_route_status:
  assumes "text_member d = Some t"
  shows "status (fst (synthesize_route fr ev s (Inr (Some d)))) \<noteq> 400"
  using assms
  by (simp add: synthesize_route_def falsy_def error_response_def jsonify_def audio_response_def
      split: sum.splits prod.splits)

subsection \<open>Initialization inside a call\<close>

lemma initialize_step:
  "(if \<not> initialized (engine s) then initialize ev s else (Inr (), s)) = initialize ev s"
  by (simp add: initialize_def)

lemma synthesize_init_fails:
  assumes "initialize ev s = (Inl e, s1)"
  shows "synthesize fr ev s t r = (Inl e, s1)"
  using assms by (simp add: synthesize_def initialize_step)

lemma initialize_fails_flag:
  assumes "initialize ev s = (Inl e, s1)"
  shows "\<not> initialized (engine s) \<and> \<not> initialized (engine s1)"
  using assms initialize_flag [of ev s] by (auto simp: initialize_def)

lemma load_voice_prompt_calls:
  "\<exists>cs. calls (snd (load_voice_prompt ev s)) = calls s @ cs"
  by (simp add: load_voice_prompt_def Let_def set_voice_prompt_def log_call_def
      split: option.splits sum.splits)

lemma initialize_calls:
  assumes "\<not> initialized (engine s)"
  shows "\<exists>cs. calls (snd (initialize ev s)) = calls s @ CallImport # cs"
proof -
  have l: "\<exists>cs. calls (snd (load_voice_prompt ev s2)) = calls s2 @ cs" for s2
    by (rule load_voice_prompt_calls)
  show ?thesis
    using assms
    apply (simp add: initialize_def Let_def log_call_def
        split: option.splits sum.splits prod.splits)
    apply (intro allI impI conjI)
    subgoal for dev m r s3
      using l [of "s\<lparr>calls := calls s @ [CallImport, CallFromPretrained (model_name (config s)) dev],
          engine := (engine s)\<lparr>model := Some m\<rparr>\<rparr>"] by auto
    subgoal for dev m r s3
      using l [of "s\<lparr>calls := calls s @ [CallImport, CallFromPretrained (model_name (config s)) dev],
          engine := (engine s)\<lparr>model := Some m\<rparr>\<rparr>"] by auto
    done
qed

lemma synthesize_calls:
  assumes "initialize ev s = (Inr (), s1)"
  shows "\<exists>cs. calls (snd (synthesize fr ev s t r)) = calls s1 @ cs \<and>
      (\<forall>c\<in>set cs. is_synthesis_call c) \<and>
      initialized (engine (snd (synthesize fr ev s t r))) = initialized (engine s1)"
proof -
  note u = synthesize_after_initialize [OF assms, of fr t r]
  let ?k = "get_cache_key fr (config s) t r"
  obtain res s2 where g: "generate_speech ev s1 ?k t r = (res, s2)"
    by (cases "generate_speech ev s1 ?k t r")
  have gc: "\<exists>cs. calls s2 = calls s1 @ cs \<and> (\<forall>c\<in>set cs. is_synthesis_call c)"
    using generate_speech_calls [OF g] by auto
  have gi: "initialized (engine s2) = initialized (engine s1)"
    using generate_speech_frame [OF g] by simp
  show ?thesis
    using gc gi g
    by (auto simp: u Let_def set_audio_cache_def split: option.splits)
qed


lemma synthesize_retries:
  assumes "\<not> initialized (engine s)"
  shows "\<exists>cs. calls (snd (synthesize fr ev s t r)) = calls s @ CallImport # cs"
proof -
  obtain ri s1 where i: "initialize ev s = (ri, s1)" by (cases "initialize ev s")
  obtain cs where cs: "calls s1 = calls s @ CallImport # cs"
    using initialize_calls [OF assms, of ev] i by auto
  show ?thesis
  proof (cases ri)
    case (Inl e)
    then show ?thesis using synthesize_init_fails [of ev s e s1 fr t r] i cs by simp
  next
    case (Inr u)
    then have "initialize ev s = (Inr (), s1)" using i by simp
    from synthesize_calls [OF this, of fr t r] cs show ?thesis by auto
  qed
qed

lemma synthesize_initializes:
  assumes "fst (initialize ev s) = Inr ()"
  shows "initialized (engine (snd (synthesize fr ev s t r)))"
proof -
  have i: "initialize ev s = (Inr (), snd (initialize ev s))"
    using assms by (simp add: prod_eq_iff)
  have "initialized (engine (snd (initialize ev s)))"
    using initialize_flag [of ev s] assms by simp
  with synthesize_calls [OF i, of fr t r] show ?thesis by auto
qed

subsection \<open>Uploads without a model\<close>




section \<open>The claims\<close>

subsection \<open>C4: the cache key\<close>



subsection \<open>C3: synthesizing the same text and rate twice\<close>

text \<open>
  Claim C3. After a successful \<open>synthesize\<close> of a text and rate, a second call with the
  same text and rate returns the same bytes and leaves the whole state as it was, the
  record of outside calls included: nothing is synthesized again, whatever the outside
  world of the second call would have answered. The same holds when any requests and
  disk changes lie between the two calls.
\<close>
theorem synthesize_idempotent:
  assumes "synthesize fr ev1 s t r = (Inr b, s1)"
  shows "synthesize fr ev2 s1 t r = (Inr b, s1) \<and>
    calls (snd (synthesize fr ev2 s1 t r)) = calls s1 \<and>
    synthesize fr ev2 (run fr steps s1) t r = (Inr b, run fr steps s1)"
proof -
  note ok = synthesize_success [OF assms]
  have m1: "model_name (config s1) = model_name (config s)"
    using synthesize_extends [of s fr ev1 t r] assms by (simp add: extends_def)
  have k1: "get_cache_key fr (config s1) t r = get_cache_key fr (config s) t r"
    using m1 by (rule get_cache_key_model_name)
  have first: "synthesize fr ev2 s1 t r = (Inr b, s1)"
    using ok k1 by (intro synthesize_hit) simp_all
  define s2 where "s2 = run fr steps s1"
  have e: "extends s1 s2" unfolding s2_def by (rule run_extends)
  have k2: "get_cache_key fr (config s2) t r = get_cache_key fr (config s) t r"
    using e m1 by (intro get_cache_key_model_name) (simp add: extends_def)
  have "initialized (engine s2)" using e ok by (simp add: extends_def)
  moreover have "audio_cache (engine s2) (get_cache_key fr (config s2) t r) = Some b"
    using e ok k2 by (simp add: extends_def)
  ultimately have "synthesize fr ev2 s2 t r = (Inr b, s2)" by (rule synthesize_hit)
  with first show ?thesis by (simp add: s2_def)
qed

theorem synthesize_idempotent_witness:
  "fst (synthesize example_repr env_ok (server_start Map.empty None) ''Hello world'' (PFloat (Finite 1)))
     = Inr [0x52, 0x49, 0x46, 0x46, 0] \<and>
   fst (synthesize example_repr env_other_audio
     (snd (synthesize example_repr env_ok (server_start Map.empty None) ''Hello world'' (PFloat (Finite 1))))
     ''Hello world'' (PFloat (Finite 1))) = Inr [0x52, 0x49, 0x46, 0x46, 0] \<and>
   calls (snd (synthesize example_repr env_other_audio
     (snd (synthesize example_repr env_ok (server_start Map.empty None) ''Hello world'' (PFloat (Finite 1))))
     ''Hello world'' (PFloat (Finite 1)))) =
     [CallImport, CallFromPretrained ''Qwen/Qwen3-TTS-12Hz-0.6B-Base'' ''cpu'',
      CallGenerate ''Hello world'' (PFloat (Finite 1))] \<and>
   fst (synthesize example_repr env_other_audio
     (run example_repr [DiskChanged Map.empty None]
       (snd (synthesize example_repr env_ok (server_start Map.empty None) ''Hello world'' (PFloat (Finite 1)))))
     ''Hello world'' (PFloat (Finite 1))) = Inr [0x52, 0x49, 0x46, 0x46, 0]"
proof -
  define s1 where "s1 = snd (synthesize example_repr env_ok (server_start Map.empty None)
      ''Hello world'' (PFloat (Finite 1)))"
  have h: "synthesize example_repr env_ok (server_start Map.empty None) ''Hello world'' (PFloat (Finite 1))
      = (Inr [0x52, 0x49, 0x46, 0x46, 0], s1)"
    unfolding s1_def by (simp add: eval_defs)
  have c: "calls s1 = [CallImport, CallFromPretrained ''Qwen/Qwen3-TTS-12Hz-0.6B-Base'' ''cpu'',
      CallGenerate ''Hello world'' (PFloat (Finite 1))]"
    unfolding s1_def by (simp add: eval_defs)
  show ?thesis
    using synthesize_idempotent [OF h, of env_other_audio "[DiskChanged Map.empty None]"] h c
    unfolding s1_def [symmetric] by simp
qed

subsection \<open>C5: the order of the cache tiers\<close>

text \<open>
  Claim C5. Once the engine is initialized (\<open>initialize\<close> returns, on an initialized
  engine at once), the lookup goes: a memory entry for the key is returned as it is, with
  no look at the disk; on a memory miss a file for the key, if it can be read, is returned
  and stored in the memory mapping, with no call to the model; only when memory and disk
  both miss does the call run the generation block, which (with a model loaded) calls the
  model exactly once.
\<close>
theorem cache_lookup_tier_order:
  assumes "initialize ev s = (Inr (), s1)"
  shows
    "(audio_cache (engine s) (get_cache_key fr (config s) t r) = Some b \<longrightarrow>
        synthesize fr ev s t r = (Inr b, s1)) \<and>
     (audio_cache (engine s) (get_cache_key fr (config s) t r) = None \<and>
      cache_files s (get_cache_key fr (config s) t r) = Some b \<and> read_cache_file ev = None \<longrightarrow>
        synthesize fr ev s t r = (Inr b, set_audio_cache (get_cache_key fr (config s) t r) b s1) \<and>
        audio_cache (engine (snd (synthesize fr ev s t r))) (get_cache_key fr (config s) t r) = Some b \<and>
        calls (snd (synthesize fr ev s t r)) = calls s1) \<and>
     (audio_cache (engine s) (get_cache_key fr (config s) t r) = None \<and>
      cache_files s (get_cache_key fr (config s) t r) = None \<longrightarrow>
        synthesize fr ev s t r = generate_speech ev s1 (get_cache_key fr (config s) t r) t r \<and>
        (model (engine s1) \<noteq> None \<longrightarrow>
           (\<exists>c. is_synthesis_call c \<and> calls (snd (synthesize fr ev s t r)) = calls s1 @ [c])))"
proof -
  note u = synthesize_after_initialize [OF assms, of fr t r]
  have g: "model (engine s1) \<noteq> None \<Longrightarrow>
      \<exists>c. is_synthesis_call c \<and> calls (snd (generate_speech ev s1 k t r)) = calls s1 @ [c]" for k
    using generate_speech_calls_model [of ev s1 k t r]
    by (cases "generate_speech ev s1 k t r") auto
  show ?thesis
    using g by (auto simp: u Let_def set_audio_cache_def)
qed

theorem cache_lookup_tier_order_witness:
  "fst (synthesize example_repr env_other_audio
      (snd (synthesize example_repr env_ok (server_start Map.empty None) ''Hello world'' (PFloat (Finite 1))))
      ''Hello world'' (PFloat (Finite 1))) = Inr [0x52, 0x49, 0x46, 0x46, 0] \<and>
   fst (synthesize example_repr env_ok
      (server_start [get_cache_key example_repr config0 ''Hello world'' (PFloat (Finite 1)) \<mapsto> [1, 2, 3]] None)
      ''Hello world'' (PFloat (Finite 1))) = Inr [1, 2, 3] \<and>
   audio_cache (engine (snd (synthesize example_repr env_ok
      (server_start [get_cache_key example_repr config0 ''Hello world'' (PFloat (Finite 1)) \<mapsto> [1, 2, 3]] None)
      ''Hello world'' (PFloat (Finite 1)))))
      (get_cache_key example_repr config0 ''Hello world'' (PFloat (Finite 1))) = Some [1, 2, 3] \<and>
   calls (snd (synthesize example_repr env_ok
      (server_start [get_cache_key example_repr config0 ''Hello world'' (PFloat (Finite 1)) \<mapsto> [1, 2, 3]] None)
      ''Hello world'' (PFloat (Finite 1)))) =
      [CallImport, CallFromPretrained ''Qwen/Qwen3-TTS-12Hz-0.6B-Base'' ''cpu''] \<and>
   calls (snd (synthesize example_repr env_ok (server_start Map.empty None) ''Hello world'' (PFloat (Finite 1)))) =
      [CallImport, CallFromPretrained ''Qwen/Qwen3-TTS-12Hz-0.6B-Base'' ''cpu'',
       CallGenerate ''Hello world'' (PFloat (Finite 1))]"
proof -
  let ?t = "''Hello world''" and ?r = "PFloat (Finite 1)"
  let ?k = "get_cache_key example_repr config0 ?t ?r"
  define s0 where "s0 = server_start Map.empty None"
  define sm where "sm = snd (synthesize example_repr env_ok s0 ?t ?r)"
  define sf where "sf = server_start [?k \<mapsto> [1, 2, 3]] None"
  have cfg: "config s0 = config0" "config sf = config0" "config sm = config0"
    by (simp_all add: s0_def sf_def sm_def eval_defs)
  txt \<open>First tier: the engine holds the key and is initialized.\<close>
  have im: "initialize env_other_audio sm = (Inr (), sm)"
    by (simp add: sm_def s0_def eval_defs)
  have mem: "audio_cache (engine sm) ?k = Some [0x52, 0x49, 0x46, 0x46, 0]"
    by (simp add: sm_def s0_def eval_defs)
  note a = cache_lookup_tier_order [OF im, of example_repr ?t ?r "[0x52, 0x49, 0x46, 0x46, 0]"]
  txt \<open>Second tier: a fresh process, the file is on disk.\<close>
  have "fst (initialize env_ok sf) = Inr ()"
    by (simp add: sf_def eval_defs)
  then have inf: "initialize env_ok sf = (Inr (), snd (initialize env_ok sf))"
    by (simp add: prod_eq_iff)
  have fl: "audio_cache (engine sf) ?k = None" "cache_files sf ?k = Some [1, 2, 3]"
    "read_cache_file env_ok = None"
    by (simp_all add: sf_def eval_defs)
  have csf: "calls (snd (initialize env_ok sf)) =
      [CallImport, CallFromPretrained ''Qwen/Qwen3-TTS-12Hz-0.6B-Base'' ''cpu'']"
    by (simp add: sf_def eval_defs)
  note b = cache_lookup_tier_order [OF inf, of example_repr ?t ?r "[1, 2, 3]"]
  txt \<open>Both tiers miss.\<close>
  have "fst (initialize env_ok s0) = Inr ()"
    by (simp add: s0_def eval_defs)
  then have in0: "initialize env_ok s0 = (Inr (), snd (initialize env_ok s0))"
    by (simp add: prod_eq_iff)
  have miss: "audio_cache (engine s0) ?k = None" "cache_files s0 ?k = None"
    "model (engine (snd (initialize env_ok s0))) \<noteq> None"
    "calls (snd (initialize env_ok s0)) =
      [CallImport, CallFromPretrained ''Qwen/Qwen3-TTS-12Hz-0.6B-Base'' ''cpu'']"
    by (simp_all add: s0_def eval_defs)
  note c = cache_lookup_tier_order [OF in0, of example_repr ?t ?r]
  have c3: "calls (snd (synthesize example_repr env_ok s0 ?t ?r)) =
      [CallImport, CallFromPretrained ''Qwen/Qwen3-TTS-12Hz-0.6B-Base'' ''cpu'',
       CallGenerate ''Hello world'' (PFloat (Finite 1))]"
    by (simp add: s0_def eval_defs)
  have w1: "fst (synthesize example_repr env_other_audio sm ?t ?r) = Inr [0x52, 0x49, 0x46, 0x46, 0]"
    using a mem by (simp add: cfg)
  have bb: "synthesize example_repr env_ok sf ?t ?r =
        (Inr [1, 2, 3], set_audio_cache ?k [1, 2, 3] (snd (initialize env_ok sf))) \<and>
      audio_cache (engine (snd (synthesize example_repr env_ok sf ?t ?r))) ?k = Some [1, 2, 3] \<and>
      calls (snd (synthesize example_repr env_ok sf ?t ?r)) = calls (snd (initialize env_ok sf))"
    using b [unfolded cfg] fl by blast
  then have "fst (synthesize example_repr env_ok sf ?t ?r) = Inr [1, 2, 3]"
    by (metis fst_conv)
  with bb csf have w2: "fst (synthesize example_repr env_ok sf ?t ?r) = Inr [1, 2, 3] \<and>
      audio_cache (engine (snd (synthesize example_repr env_ok sf ?t ?r))) ?k = Some [1, 2, 3] \<and>
      calls (snd (synthesize example_repr env_ok sf ?t ?r)) =
        [CallImport, CallFromPretrained ''Qwen/Qwen3-TTS-12Hz-0.6B-Base'' ''cpu'']"
    by metis
  have w3: "\<exists>c. is_synthesis_call c \<and> calls (snd (synthesize example_repr env_ok s0 ?t ?r)) =
      calls (snd (initialize env_ok s0)) @ [c]"
    using c [unfolded cfg] miss(1,2,3) by blast
  have w4: "calls (snd (synthesize example_repr env_ok s0 ?t ?r)) =
      [CallImport, CallFromPretrained ''Qwen/Qwen3-TTS-12Hz-0.6B-Base'' ''cpu'',
       CallGenerate ''Hello world'' (PFloat (Finite 1))]"
    using w3 c3 by simp
  show ?thesis
    using w1 w2 w4 unfolding sm_def sf_def s0_def by blast
qed

subsection \<open>C1: a cache write that fails\<close>

text \<open>
  Claim C1, as amended. When a synthesis misses both tiers, the model and the WAV
  conversion succeed and writing the cache file fails, the call fails with the error of
  the write and returns no audio, and the disk holds for the key only what the failed
  write left behind (nothing when the file could not be opened). The memory entry for the
  key, however, is present and holds the new audio: \<open>synthesize\<close> stores it before it opens
  the file, and nothing takes it back. The claim as stated (no memory entry after a
  failed write) fails at the last theorem of this subsection: a full disk on the first
  synthesis of a fresh server.
\<close>

theorem failed_write_keeps_memory_entry:
  assumes "initialize ev s = (Inr (), s1)"
    and "audio_cache (engine s) (get_cache_key fr (config s) t r) = None"
    and "cache_files s (get_cache_key fr (config s) t r) = None"
    and "model (engine s1) = Some m"
    and "(case voice_prompt (engine s1) of
            Some p \<Rightarrow> generate_voice_clone ev m t p r
          | None \<Rightarrow> generate ev m t r) = Inr (a, sr)"
    and "array_to_wav ev a sr = Inr data"
    and "write_cache_file ev = WriteFailed e left"
  shows "fst (synthesize fr ev s t r) = Inl e \<and>
    audio_cache (engine (snd (synthesize fr ev s t r))) (get_cache_key fr (config s) t r) = Some data \<and>
    cache_files (snd (synthesize fr ev s t r)) (get_cache_key fr (config s) t r) = left"
proof -
  let ?k = "get_cache_key fr (config s) t r"
  have u: "synthesize fr ev s t r = generate_speech ev s1 ?k t r"
    using synthesize_after_initialize [OF assms(1), of fr t r] assms(2,3) by (simp add: Let_def)
  have f: "cache_files s1 ?k = None"
    using initialize_files [of ev s] assms(1,3) by simp
  show ?thesis
    using generate_speech_write_failed [OF assms(4,5,6,7), of ?k] f
    by (simp add: u split: option.splits)
qed

theorem failed_write_keeps_memory_entry_witness:
  "fst (synthesize example_repr env_disk_full (server_start Map.empty None) ''Hello world'' (PFloat (Finite 1)))
     = Inl (OSError ''No space left on device'') \<and>
   audio_cache (engine (snd (synthesize example_repr env_disk_full (server_start Map.empty None)
       ''Hello world'' (PFloat (Finite 1)))))
     (get_cache_key example_repr config0 ''Hello world'' (PFloat (Finite 1)))
     = Some [0x52, 0x49, 0x46, 0x46, 0] \<and>
   cache_files (snd (synthesize example_repr env_disk_full (server_start Map.empty None)
       ''Hello world'' (PFloat (Finite 1))))
     (get_cache_key example_repr config0 ''Hello world'' (PFloat (Finite 1))) = None"
proof -
  define s0 where "s0 = server_start Map.empty None"
  have cfg: "config s0 = config0" by (simp add: s0_def eval_defs)
  have "fst (initialize env_disk_full s0) = Inr ()"
    by (simp add: s0_def env_disk_full_def eval_defs)
  then have i: "initialize env_disk_full s0 = (Inr (), snd (initialize env_disk_full s0))"
    by (simp add: prod_eq_iff)
  have h: "audio_cache (engine s0) (get_cache_key example_repr (config s0) ''Hello world'' (PFloat (Finite 1))) = None"
    "cache_files s0 (get_cache_key example_repr (config s0) ''Hello world'' (PFloat (Finite 1))) = None"
    "model (engine (snd (initialize env_disk_full s0))) = Some (QwenModel 0)"
    "(case voice_prompt (engine (snd (initialize env_disk_full s0))) of
        Some p \<Rightarrow> generate_voice_clone env_disk_full (QwenModel 0) ''Hello world'' p (PFloat (Finite 1))
      | None \<Rightarrow> generate env_disk_full (QwenModel 0) ''Hello world'' (PFloat (Finite 1)))
      = Inr (AudioArray 0, 24000)"
    "array_to_wav env_disk_full (AudioArray 0) 24000 = Inr [0x52, 0x49, 0x46, 0x46, 0]"
    "write_cache_file env_disk_full = WriteFailed (OSError ''No space left on device'') None"
    by (simp_all add: s0_def env_disk_full_def eval_defs)
  show ?thesis
    using failed_write_keeps_memory_entry [OF i h, unfolded cfg]
    unfolding s0_def .
qed

theorem failed_write_not_atomic:
  "fst (synthesize example_repr env_disk_full (server_start Map.empty None) ''Hello world'' (PFloat (Finite 1)))
     = Inl (OSError ''No space left on device'') \<and>
   audio_cache (engine (snd (synthesize example_repr env_disk_full (server_start Map.empty None)
       ''Hello world'' (PFloat (Finite 1)))))
     (get_cache_key example_repr config0 ''Hello world'' (PFloat (Finite 1))) \<noteq> None \<and>
   cache_files (snd (synthesize example_repr env_disk_full (server_start Map.empty None)
       ''Hello world'' (PFloat (Finite 1))))
     (get_cache_key example_repr config0 ''Hello world'' (PFloat (Finite 1))) = None"
  by (simp add: env_disk_full_def eval_defs)

subsection \<open>C2: a profile that survives the loader\<close>

text \<open>
  Claim C2 says that after every call of the profile loader the active profile is the
  newly built one or absent, never the one active before. The missing-file branch of
  \<open>load_voice_prompt\<close> returns without touching \<open>voice_prompt\<close>, although it logs that voice
  cloning is disabled and the sibling \<^verbatim>\<open>except\<close> branch resets the field. The run below
  reaches it: initialization fails at \<^verbatim>\<open>mkdir\<close> after the model is loaded, a reference
  upload builds a profile, the reference file is removed from disk, and the next
  synthesis initializes the engine. The loader keeps the old profile, and the synthesis
  is made with it (the last call is \<open>CallGenerateClone\<close>).
\<close>

theorem stale_voice_prompt_is_kept:
  "voice_prompt (engine (run example_repr
      [Request env_mkdir_fails (PostSynthesize (Inr (Some hello_body))),
       Request env_ok (PostReference \<lparr>audio_file = Some [1, 2, 3], form_text = None\<rparr>),
       DiskChanged Map.empty None]
      (server_start Map.empty None))) = Some (VoicePrompt 0) \<and>
   reference_file (run example_repr
      [Request env_mkdir_fails (PostSynthesize (Inr (Some hello_body))),
       Request env_ok (PostReference \<lparr>audio_file = Some [1, 2, 3], form_text = None\<rparr>),
       DiskChanged Map.empty None]
      (server_start Map.empty None)) = None \<and>
   voice_prompt (engine (snd (load_voice_prompt env_ok (run example_repr
      [Request env_mkdir_fails (PostSynthesize (Inr (Some hello_body))),
       Request env_ok (PostReference \<lparr>audio_file = Some [1, 2, 3], form_text = None\<rparr>),
       DiskChanged Map.empty None]
      (server_start Map.empty None))))) = Some (VoicePrompt 0) \<and>
   calls (run example_repr
      [Request env_mkdir_fails (PostSynthesize (Inr (Some hello_body))),
       Request env_ok (PostReference \<lparr>audio_file = Some [1, 2, 3], form_text = None\<rparr>),
       DiskChanged Map.empty None,
       Request env_ok (PostSynthesize (Inr (Some hello_body)))]
      (server_start Map.empty None)) =
     [CallImport, CallFromPretrained ''Qwen/Qwen3-TTS-12Hz-0.6B-Base'' ''cpu'',
      CallCreatePrompt ''./reference/gm-voice.wav''
        ''The shadows grow long as ancient evil stirs in the darkness.'',
      CallImport, CallFromPretrained ''Qwen/Qwen3-TTS-12Hz-0.6B-Base'' ''cpu'',
      CallGenerateClone ''Hello world'' (VoicePrompt 0) (PFloat (Finite 1))]"
  by (simp add: env_mkdir_fails_def route_defs eval_defs)

subsection \<open>C6: the loader absorbs failures\<close>




subsection \<open>C9: the rate is clamped\<close>

text \<open>
  Claim C9. For every request with a text and a numeric rate, the route does not reject
  the rate: it calls \<open>synthesize\<close> (which derives the key and calls the model) with a
  number whose value lies in \<open>[1/2, 2]\<close> and, for a finite rate \<open>x\<close>, equals
  \<open>max (1/2) (min 2 x)\<close>; the response is what that call gives, never 400. A request with
  rate 10.0 is answered exactly as one with rate 2.0, state included, and one with rate
  0.1 (the double nearest to it) exactly as one with rate 0.5.
\<close>

theorem rate_is_clamped:
  assumes "json_num j = Some n" and "text_member d = Some t"
  shows "\<exists>c q. clamp_rate j = Inr c \<and> finite_value c = Some q \<and> 1 / 2 \<le> q \<and> q \<le> 2 \<and>
      (\<forall>x. finite_value n = Some x \<longrightarrow> q = max (1 / 2) (min 2 x)) \<and>
      synthesize_route fr ev s (Inr (Some (d\<lparr>rate_member := Some j\<rparr>))) =
        (case synthesize fr ev s t c of
           (Inl e, s1) \<Rightarrow> (error_response 500 (str_exc e), s1)
         | (Inr a, s1) \<Rightarrow> (audio_response a, s1)) \<and>
      status (fst (synthesize_route fr ev s (Inr (Some (d\<lparr>rate_member := Some j\<rparr>))))) \<noteq> 400 \<and>
      synthesize_route fr ev s (Inr (Some (d\<lparr>rate_member := Some (JFloat (Finite 10))\<rparr>))) =
        synthesize_route fr ev s (Inr (Some (d\<lparr>rate_member := Some (JFloat (Finite 2))\<rparr>))) \<and>
      synthesize_route fr ev s
          (Inr (Some (d\<lparr>rate_member := Some (JFloat (Finite (3602879701896397 / 36028797018963968)))\<rparr>))) =
        synthesize_route fr ev s (Inr (Some (d\<lparr>rate_member := Some (JFloat (Finite (1 / 2)))\<rparr>)))"
proof -
  obtain c q where c: "clamp_rate j = Inr c" "finite_value c = Some q" "1 / 2 \<le> q" "q \<le> 2"
    "\<forall>x. finite_value n = Some x \<longrightarrow> q = max (1 / 2) (min 2 x)"
    using clamp_rate_value [OF assms(1)] by blast
  have r: "synthesize_route fr ev s (Inr (Some (d\<lparr>rate_member := Some j\<rparr>))) =
        (case synthesize fr ev s t c of
           (Inl e, s1) \<Rightarrow> (error_response 500 (str_exc e), s1)
         | (Inr a, s1) \<Rightarrow> (audio_response a, s1))"
    using assms(2) c(1) by (intro synthesize_route_text) simp_all
  have st: "status (fst (synthesize_route fr ev s (Inr (Some (d\<lparr>rate_member := Some j\<rparr>))))) \<noteq> 400"
    using assms(2) by (intro synthesize_route_status [of _ t]) simp
  have hi: "synthesize_route fr ev s (Inr (Some (d\<lparr>rate_member := Some (JFloat (Finite 10))\<rparr>))) =
        synthesize_route fr ev s (Inr (Some (d\<lparr>rate_member := Some (JFloat (Finite 2))\<rparr>)))"
    by (cases "text_member d") (simp_all add: synthesize_route_def falsy_def clamp_rate_float)
  have lo: "synthesize_route fr ev s
          (Inr (Some (d\<lparr>rate_member := Some (JFloat (Finite (3602879701896397 / 36028797018963968)))\<rparr>))) =
        synthesize_route fr ev s (Inr (Some (d\<lparr>rate_member := Some (JFloat (Finite (1 / 2)))\<rparr>)))"
    by (cases "text_member d") (simp_all add: synthesize_route_def falsy_def clamp_rate_float)
  show ?thesis using c r st hi lo by blast
qed


theorem rate_is_clamped_witness:
  "json_num (JFloat (Finite 10)) = Some (PFloat (Finite 10)) \<and>
   text_member hello_body = Some ''Hello world'' \<and>
   clamp_rate (JFloat (Finite 10)) = Inr (PFloat (Finite 2)) \<and>
   finite_value (PFloat (Finite 2)) = Some (max (1 / 2) (min 2 10)) \<and>
   status (fst (synthesize_route example_repr env_ok (server_start Map.empty None)
     (Inr (Some (hello_body\<lparr>rate_member := Some (JFloat (Finite 10))\<rparr>))))) \<noteq> 400 \<and>
   synthesize_route example_repr env_ok (server_start Map.empty None)
     (Inr (Some (hello_body\<lparr>rate_member := Some (JFloat (Finite 10))\<rparr>))) =
   synthesize_route example_repr env_ok (server_start Map.empty None)
     (Inr (Some (hello_body\<lparr>rate_member := Some (JFloat (Finite 2))\<rparr>)))"
proof -
  have h: "json_num (JFloat (Finite 10)) = Some (PFloat (Finite 10))"
    "text_member hello_body = Some ''Hello world''"
    by (simp_all add: hello_body_def)
  have c: "clamp_rate (JFloat (Finite 10)) = Inr (PFloat (Finite 2))"
    by (simp add: clamp_rate_float)
  have v: "finite_value (PFloat (Finite 2)) = Some (max (1 / 2) (min 2 10))"
    by simp
  from rate_is_clamped [OF h, of example_repr env_ok "server_start Map.empty None"]
  have "status (fst (synthesize_route example_repr env_ok (server_start Map.empty None)
     (Inr (Some (hello_body\<lparr>rate_member := Some (JFloat (Finite 10))\<rparr>))))) \<noteq> 400 \<and>
   synthesize_route example_repr env_ok (server_start Map.empty None)
     (Inr (Some (hello_body\<lparr>rate_member := Some (JFloat (Finite 10))\<rparr>))) =
   synthesize_route example_repr env_ok (server_start Map.empty None)
     (Inr (Some (hello_body\<lparr>rate_member := Some (JFloat (Finite 2))\<rparr>)))"
    by blast
  with h c v show ?thesis by blast
qed

subsection \<open>C8: the responses of \<^verbatim>\<open>/synthesize\<close>\<close>




subsection \<open>C7: initialization that fails, initialization that is skipped\<close>

text \<open>
  Claim C7. If initialization fails inside a \<open>synthesize\<close> call, the call fails with that
  error, the route answers 500 with its message, and the engine is still uninitialized.
  The next \<open>synthesize\<close> call on that state starts initialization again from its first
  step (the import), and if this attempt succeeds the engine is initialized afterwards.
  Once the engine is initialized, \<open>initialize\<close> returns at once without touching the
  state, a \<open>synthesize\<close> call makes no call to the outside but model calls for synthesis,
  and the engine stays initialized over every later sequence of requests and disk
  changes.
\<close>

theorem initialization_failure_semantics:
  "(initialize ev s = (Inl e, s1) \<longrightarrow>
      synthesize fr ev s t r = (Inl e, s1) \<and>
      \<not> initialized (engine s1) \<and>
      (text_member d = Some t \<and>
       clamp_rate (case rate_member d of None \<Rightarrow> JFloat (Finite 1) | Some x \<Rightarrow> x) = Inr r \<longrightarrow>
         synthesize_route fr ev s (Inr (Some d)) = (error_response 500 (str_exc e), s1) \<and>
         status (error_response 500 (str_exc e)) = 500 \<and>
         response_member (error_response 500 (str_exc e)) ''error'' = Some (JStr (str_exc e))) \<and>
      (\<exists>cs. calls (snd (synthesize fr ev2 s1 t2 r2)) = calls s1 @ CallImport # cs) \<and>
      (fst (initialize ev2 s1) = Inr () \<longrightarrow>
         initialized (engine (snd (synthesize fr ev2 s1 t2 r2))))) \<and>
   (initialized (engine s) \<longrightarrow>
      initialize ev s = (Inr (), s) \<and>
      (\<exists>cs. calls (snd (synthesize fr ev s t r)) = calls s @ cs \<and>
            (\<forall>c\<in>set cs. is_synthesis_call c)) \<and>
      initialized (engine (snd (synthesize fr ev s t r))) \<and>
      initialized (engine (run fr steps s)))"
proof (intro conjI impI)
  assume f: "initialize ev s = (Inl e, s1)"
  show "synthesize fr ev s t r = (Inl e, s1)" using f by (rule synthesize_init_fails)
  show n1: "\<not> initialized (engine s1)" using initialize_fails_flag [OF f] by simp
  show "\<exists>cs. calls (snd (synthesize fr ev2 s1 t2 r2)) = calls s1 @ CallImport # cs"
    using n1 by (rule synthesize_retries)
  {
    assume "text_member d = Some t \<and>
       clamp_rate (case rate_member d of None \<Rightarrow> JFloat (Finite 1) | Some x \<Rightarrow> x) = Inr r"
    then show "synthesize_route fr ev s (Inr (Some d)) = (error_response 500 (str_exc e), s1)"
      using synthesize_route_text [of d t r fr ev s] synthesize_init_fails [OF f, of fr t r]
      by simp
  }
  show "status (error_response 500 (str_exc e)) = 500"
    by (simp add: error_response_def jsonify_def)
  show "response_member (error_response 500 (str_exc e)) ''error'' = Some (JStr (str_exc e))"
    by (simp add: error_response_def jsonify_def response_member_def)
  {
    assume "fst (initialize ev2 s1) = Inr ()"
    then show "initialized (engine (snd (synthesize fr ev2 s1 t2 r2)))"
      by (rule synthesize_initializes)
  }
next
  assume a: "initialized (engine s)"
  show i: "initialize ev s = (Inr (), s)" using a by (simp add: initialize_def)
  show "\<exists>cs. calls (snd (synthesize fr ev s t r)) = calls s @ cs \<and>
            (\<forall>c\<in>set cs. is_synthesis_call c)"
    using synthesize_calls [OF i, of fr t r] by blast
  show "initialized (engine (snd (synthesize fr ev s t r)))"
    using synthesize_calls [OF i, of fr t r] a by blast
  show "initialized (engine (run fr steps s))"
    using run_extends [of s fr steps] a by (simp add: extends_def)
qed


theorem initialization_failure_semantics_witness:
  "fst (initialize env_no_qwen (server_start Map.empty None))
     = Inl (ImportError ''No module named qwen_tts'') \<and>
   fst (synthesize example_repr env_no_qwen (server_start Map.empty None) ''Hello world'' (PFloat (Finite 1)))
     = Inl (ImportError ''No module named qwen_tts'') \<and>
   \<not> initialized (engine (snd (initialize env_no_qwen (server_start Map.empty None)))) \<and>
   fst (synthesize_route example_repr env_no_qwen (server_start Map.empty None) (Inr (Some hello_body)))
     = error_response 500 ''No module named qwen_tts'' \<and>
   status (error_response 500 ''No module named qwen_tts'') = 500 \<and>
   calls (snd (synthesize example_repr env_ok
       (snd (initialize env_no_qwen (server_start Map.empty None))) ''Hello world'' (PFloat (Finite 1))))
     = [CallImport, CallImport, CallFromPretrained ''Qwen/Qwen3-TTS-12Hz-0.6B-Base'' ''cpu'',
        CallGenerate ''Hello world'' (PFloat (Finite 1))] \<and>
   initialized (engine (snd (synthesize example_repr env_ok
       (snd (initialize env_no_qwen (server_start Map.empty None))) ''Hello world'' (PFloat (Finite 1))))) \<and>
   initialized (engine (snd (initialize env_ok (server_start Map.empty None)))) \<and>
   initialize env_no_qwen (snd (initialize env_ok (server_start Map.empty None)))
     = (Inr (), snd (initialize env_ok (server_start Map.empty None))) \<and>
   initialized (engine (snd (synthesize example_repr env_no_qwen
       (snd (initialize env_ok (server_start Map.empty None))) ''Hello world'' (PFloat (Finite 1))))) \<and>
   initialized (engine (run example_repr
       [Request env_no_qwen (PostSynthesize (Inr (Some hello_body))), DiskChanged Map.empty None]
       (snd (initialize env_ok (server_start Map.empty None)))))"
proof -
  define s0 where "s0 = server_start Map.empty None"
  define s1 where "s1 = snd (initialize env_no_qwen s0)"
  define sm where "sm = snd (initialize env_ok s0)"
  let ?e = "ImportError ''No module named qwen_tts''"
  let ?t = "''Hello world''" and ?r = "PFloat (Finite 1)"
  have "fst (initialize env_no_qwen s0) = Inl ?e"
    by (simp add: s0_def env_no_qwen_def eval_defs)
  then have f: "initialize env_no_qwen s0 = (Inl ?e, s1)"
    by (simp add: prod_eq_iff s1_def)
  have h: "text_member hello_body = Some ?t"
    "clamp_rate (case rate_member hello_body of None \<Rightarrow> JFloat (Finite 1) | Some x \<Rightarrow> x) = Inr ?r"
    by (simp_all add: hello_body_def clamp_rate_float)
  have ok2: "fst (initialize env_ok s1) = Inr ()"
    by (simp add: s1_def s0_def env_no_qwen_def eval_defs)
  note a = initialization_failure_semantics [of env_no_qwen s0 ?e s1 example_repr ?t ?r hello_body
      env_ok ?t ?r]
  have a1: "synthesize example_repr env_no_qwen s0 ?t ?r = (Inl ?e, s1)"
    "\<not> initialized (engine s1)"
    "synthesize_route example_repr env_no_qwen s0 (Inr (Some hello_body)) =
        (error_response 500 (str_exc ?e), s1)"
    "status (error_response 500 (str_exc ?e)) = 500"
    "initialized (engine (snd (synthesize example_repr env_ok s1 ?t ?r)))"
    using a f h ok2 by blast+
  have a2: "\<exists>cs. calls (snd (synthesize example_repr env_ok s1 ?t ?r)) = calls s1 @ CallImport # cs"
    using a f by blast
  have c: "calls (snd (synthesize example_repr env_ok s1 ?t ?r)) =
      [CallImport, CallImport, CallFromPretrained ''Qwen/Qwen3-TTS-12Hz-0.6B-Base'' ''cpu'',
       CallGenerate ''Hello world'' (PFloat (Finite 1))]"
    using a2 by (simp add: s1_def s0_def env_no_qwen_def eval_defs)
  have im: "initialized (engine sm)"
    by (simp add: sm_def s0_def eval_defs)
  note b = initialization_failure_semantics [of env_no_qwen sm _ _ example_repr ?t ?r _ _ _ _
      "[Request env_no_qwen (PostSynthesize (Inr (Some hello_body))), DiskChanged Map.empty None]"]
  have b1: "initialize env_no_qwen sm = (Inr (), sm)"
    "initialized (engine (snd (synthesize example_repr env_no_qwen sm ?t ?r)))"
    "initialized (engine (run example_repr
       [Request env_no_qwen (PostSynthesize (Inr (Some hello_body))), DiskChanged Map.empty None] sm))"
    using b im by blast+
  have w1: "fst (synthesize example_repr env_no_qwen s0 ?t ?r) = Inl ?e"
    using a1(1) by simp
  have w2: "fst (synthesize_route example_repr env_no_qwen s0 (Inr (Some hello_body)))
      = error_response 500 ''No module named qwen_tts''"
    using a1(3) by simp
  have w3: "status (error_response 500 ''No module named qwen_tts'') = 500"
    using a1(4) by simp
  have w0: "fst (initialize env_no_qwen s0) = Inl ?e" using f by simp
  show ?thesis
    using w0 w1 a1(2) w2 w3 c a1(5) im b1
    unfolding s1_def sm_def s0_def by blast
qed

subsection \<open>C10: a voice prompt needs a model\<close>




end
